theory Spec2Isabelle
  imports Main
begin

section \<open>Isomorphism.ts: the data model\<close>

text \<open>
  \<^verbatim>\<open>export type Isomorphism<A, B> = { to: (x: A) => B; from: (x: B) => A }\<close>

  An isomorphism is a pair of functions. The bijection law is a contract of the caller and
  is not part of the type, so the record carries the two arrows and nothing else.
\<close>

record ('a, 'b) Isomorphism =
  to :: "'a \<Rightarrow> 'b"
  "from" :: "'b \<Rightarrow> 'a"

text \<open>
  The monocle-ts \<^verbatim>\<open>Iso<A, B>\<close> the module converts to and from: the same two arrows
  under the names \<^verbatim>\<open>get\<close> and \<^verbatim>\<open>reverseGet\<close>.
\<close>

record ('a, 'b) Iso =
  get :: "'a \<Rightarrow> 'b"
  reverseGet :: "'b \<Rightarrow> 'a"

text \<open>
  The fp-ts \<^verbatim>\<open>Semigroup<A>\<close>: one binary operation \<^verbatim>\<open>concat\<close>. The field is named
  \<open>concat_sg\<close> because \<open>concat\<close> is the list function of HOL.
\<close>

record 'a Semigroup =
  concat_sg :: "'a \<Rightarrow> 'a \<Rightarrow> 'a"

section \<open>The operations\<close>

text \<open>
  \<^verbatim>\<open>const getIsoIso = <A, B>(): Isomorphism<Isomorphism<A, B>, Iso<A, B>> => ({
    to: x => ({ get: x.to, reverseGet: x.from }),
    from: x => ({ to: x.get, from: x.reverseGet }),
  })\<close>
\<close>

definition getIsoIso :: "unit \<Rightarrow> (('a, 'b) Isomorphism, ('a, 'b) Iso) Isomorphism" where
  "getIsoIso u =
     \<lparr> to = (\<lambda>x. \<lparr> get = to x, reverseGet = from x \<rparr>),
       from = (\<lambda>x. \<lparr> to = get x, from = reverseGet x \<rparr>) \<rparr>"

text \<open>\<^verbatim>\<open>toIso = x => getIsoIso<A, B>().to(x)\<close>\<close>

definition toIso :: "('a, 'b) Isomorphism \<Rightarrow> ('a, 'b) Iso" where
  "toIso x = to (getIsoIso ()) x"

text \<open>\<^verbatim>\<open>fromIso = x => getIsoIso<A, B>().from(x)\<close>\<close>

definition fromIso :: "('a, 'b) Iso \<Rightarrow> ('a, 'b) Isomorphism" where
  "fromIso x = from (getIsoIso ()) x"

text \<open>\<^verbatim>\<open>reverse = x => ({ to: x.from, from: x.to })\<close>\<close>

definition reverse :: "('a, 'b) Isomorphism \<Rightarrow> ('b, 'a) Isomorphism" where
  "reverse x = \<lparr> to = from x, from = to x \<rparr>"

text \<open>
  \<^verbatim>\<open>deriveSemigroup = x => S => ({
    concat: (y, z) => x.to(S.concat(x.from(y), x.from(z))),
  })\<close>
\<close>

definition deriveSemigroup :: "('a, 'b) Isomorphism \<Rightarrow> 'a Semigroup \<Rightarrow> 'b Semigroup" where
  "deriveSemigroup x S = \<lparr> concat_sg = (\<lambda>y z. to x (concat_sg S (from x y) (from x z))) \<rparr>"

section \<open>The documented example: booleans and binary digits\<close>

text \<open>
  \<^verbatim>\<open>type Binary = 0 | 1\<close> has exactly two inhabitants. \<^verbatim>\<open>Boolean\<close> is the JavaScript
  conversion to a boolean, here on the two numbers of the type: 0 is falsy, 1 is truthy.
\<close>

datatype Binary = B0 | B1

fun Boolean :: "Binary \<Rightarrow> bool" where
  "Boolean B0 = False"
| "Boolean B1 = True"

text \<open>
  \<^verbatim>\<open>const isoBoolBinary: Isomorphism<boolean, Binary> = { to: x => x ? 1 : 0, from: Boolean }\<close>
\<close>

definition isoBoolBinary :: "(bool, Binary) Isomorphism" where
  "isoBoolBinary = \<lparr> to = (\<lambda>x. if x then B1 else B0), from = Boolean \<rparr>"

text \<open>
  \<^verbatim>\<open>Bool.SemigroupAll\<close> of fp-ts, the semigroup of booleans under conjunction:
  \<^verbatim>\<open>{ concat: (first, second) => first && second }\<close>.
\<close>

definition SemigroupAll :: "bool Semigroup" where
  "SemigroupAll = \<lparr> concat_sg = (\<lambda>first second. first \<and> second) \<rparr>"

section \<open>The same code when a supplied function may throw\<close>

text \<open>
  In JavaScript any function a caller supplies may throw. To say that the module adds no
  failure of its own, the arrows are modelled a second time with a result type
  \<open>'e + 'a\<close>: \<open>Inl e\<close> is an exception \<open>e\<close> propagating, \<open>Inr v\<close> a normal return.
\<close>

definition bind_result :: "'e + 'a \<Rightarrow> ('a \<Rightarrow> 'e + 'b) \<Rightarrow> 'e + 'b" where
  "bind_result r f = (case r of Inl e \<Rightarrow> Inl e | Inr v \<Rightarrow> f v)"

record ('e, 'a, 'b) IsomorphismE =
  toE :: "'a \<Rightarrow> 'e + 'b"
  fromE :: "'b \<Rightarrow> 'e + 'a"


record ('e, 'a) SemigroupE =
  concatE :: "'a \<Rightarrow> 'a \<Rightarrow> 'e + 'a"





text \<open>
  The arguments of \<^verbatim>\<open>x.to(S.concat(x.from(y), x.from(z)))\<close> are evaluated from left to
  right: \<^verbatim>\<open>x.from(y)\<close>, then \<^verbatim>\<open>x.from(z)\<close>, then \<^verbatim>\<open>S.concat\<close>, then \<^verbatim>\<open>x.to\<close>; the
  first exception ends the evaluation.
\<close>

definition deriveSemigroupE ::
  "('e, 'a, 'b) IsomorphismE \<Rightarrow> ('e, 'a) SemigroupE \<Rightarrow> 'e + ('e, 'b) SemigroupE" where
  "deriveSemigroupE x S =
     Inr \<lparr> concatE = (\<lambda>y z.
       bind_result (fromE x y) (\<lambda>a1.
       bind_result (fromE x z) (\<lambda>a2.
       bind_result (concatE S a1 a2) (\<lambda>a.
       toE x a)))) \<rparr>"

text \<open>Functions that never throw, seen as functions that may.\<close>

definition pureIsomorphism :: "('a, 'b) Isomorphism \<Rightarrow> ('e, 'a, 'b) IsomorphismE" where
  "pureIsomorphism x = \<lparr> toE = (\<lambda>a. Inr (to x a)), fromE = (\<lambda>b. Inr (from x b)) \<rparr>"

definition pureSemigroup :: "'a Semigroup \<Rightarrow> ('e, 'a) SemigroupE" where
  "pureSemigroup S = \<lparr> concatE = (\<lambda>y z. Inr (concat_sg S y z)) \<rparr>"



section \<open>Shared lemmas\<close>

lemma getIsoIso_to: "to (getIsoIso u) x = \<lparr> get = to x, reverseGet = from x \<rparr>"
  by (simp add: getIsoIso_def)

lemma getIsoIso_from: "from (getIsoIso u) y = \<lparr> to = get y, from = reverseGet y \<rparr>"
  by (simp add: getIsoIso_def)

lemma deriveSemigroup_concat:
  "concat_sg (deriveSemigroup x S) y z = to x (concat_sg S (from x y) (from x z))"
  by (simp add: deriveSemigroup_def)

text \<open>
  Associativity needs one half of the bijection law only: \<open>from\<close> after \<open>to\<close> is the
  identity on the source type.
\<close>

lemma deriveSemigroup_assoc_left_inverse:
  assumes inv: "\<And>a. from i (to i a) = a"
    and assoc: "\<And>a b c. concat_sg S (concat_sg S a b) c = concat_sg S a (concat_sg S b c)"
  shows "concat_sg (deriveSemigroup i S) (concat_sg (deriveSemigroup i S) x y) z =
         concat_sg (deriveSemigroup i S) x (concat_sg (deriveSemigroup i S) y z)"
  by (simp add: deriveSemigroup_concat inv assoc)

lemma bind_result_Inr: "bind_result (Inr v) f = f v"
  by (simp add: bind_result_def)

lemma bind_result_Inl: "bind_result (Inl e) f = Inl e"
  by (simp add: bind_result_def)

text \<open>An exception of the caller's \<open>from\<close> on the first argument reaches the caller of \<open>concat\<close>.\<close>

lemma deriveSemigroupE_propagates:
  assumes "deriveSemigroupE x S = Inr d" and "fromE x y = Inl e"
  shows "concatE d y z = Inl e"
  using assms by (auto simp add: deriveSemigroupE_def bind_result_Inl)

text \<open>On functions that never throw, the second model computes what the first does.\<close>

lemma deriveSemigroupE_pure:
  "deriveSemigroupE (pureIsomorphism x) (pureSemigroup S) = Inr (pureSemigroup (deriveSemigroup x S))"
  by (simp add: deriveSemigroupE_def pureIsomorphism_def pureSemigroup_def
      deriveSemigroup_def bind_result_Inr)




lemma isoBoolBinary_left_inverse: "from isoBoolBinary (to isoBoolBinary a) = a"
  by (simp add: isoBoolBinary_def)

lemma isoBoolBinary_right_inverse: "to isoBoolBinary (from isoBoolBinary b) = b"
  by (cases b) (simp_all add: isoBoolBinary_def)

lemma SemigroupAll_assoc:
  "concat_sg SemigroupAll (concat_sg SemigroupAll a b) c =
   concat_sg SemigroupAll a (concat_sg SemigroupAll b c)"
  by (simp add: SemigroupAll_def)

section \<open>Semigroup derivation\<close>

text \<open>
  C1. The derived semigroup combines two values of \<open>B\<close> by converting both to \<open>A\<close> with
  \<open>from\<close>, combining them there, and converting the result back with \<open>to\<close>:
  \<^verbatim>\<open>deriveSemigroup(i)(S).concat(b1, b2) == i.to(S.concat(i.from(b1), i.from(b2)))\<close>,
  for every isomorphism, every semigroup and all \<open>b1\<close>, \<open>b2\<close>.
\<close>

theorem deriveSemigroup_correct:
  "concat_sg (deriveSemigroup i S) b1 b2 = to i (concat_sg S (from i b1) (from i b2))"
  by (simp add: deriveSemigroup_def)

text \<open>
  C2. When the isomorphism satisfies the bijection law (\<open>from (to a) = a\<close> for all \<open>a\<close> and
  \<open>to (from b) = b\<close> for all \<open>b\<close>) and the source operation is associative, the derived
  operation is associative.
\<close>

theorem deriveSemigroup_assoc:
  assumes "\<forall>a. from i (to i a) = a"
    and "\<forall>b. to i (from i b) = b"
    and "\<forall>a b c. concat_sg S (concat_sg S a b) c = concat_sg S a (concat_sg S b c)"
  shows "concat_sg (deriveSemigroup i S) (concat_sg (deriveSemigroup i S) x y) z =
         concat_sg (deriveSemigroup i S) x (concat_sg (deriveSemigroup i S) y z)"
  using assms by (intro deriveSemigroup_assoc_left_inverse) simp_all

theorem deriveSemigroup_assoc_witness:
  "(\<forall>a. from isoBoolBinary (to isoBoolBinary a) = a) \<and>
   (\<forall>b. to isoBoolBinary (from isoBoolBinary b) = b) \<and>
   (\<forall>a b c. concat_sg SemigroupAll (concat_sg SemigroupAll a b) c =
            concat_sg SemigroupAll a (concat_sg SemigroupAll b c)) \<and>
   concat_sg (deriveSemigroup isoBoolBinary SemigroupAll)
     (concat_sg (deriveSemigroup isoBoolBinary SemigroupAll) B1 B0) B1 =
   concat_sg (deriveSemigroup isoBoolBinary SemigroupAll) B1
     (concat_sg (deriveSemigroup isoBoolBinary SemigroupAll) B0 B1)"
proof -
  have h1: "\<forall>a. from isoBoolBinary (to isoBoolBinary a) = a"
    by (simp add: isoBoolBinary_left_inverse)
  have h2: "\<forall>b. to isoBoolBinary (from isoBoolBinary b) = b"
    by (simp add: isoBoolBinary_right_inverse)
  have h3: "\<forall>a b c. concat_sg SemigroupAll (concat_sg SemigroupAll a b) c =
                    concat_sg SemigroupAll a (concat_sg SemigroupAll b c)"
    by (simp add: SemigroupAll_assoc)
  from deriveSemigroup_assoc [OF h1 h2 h3, of B1 B0 B1] h1 h2 h3
  show ?thesis by blast
qed

section \<open>Conversion to and from the optic\<close>

text \<open>
  C3. \<open>toIso i\<close> is the accessor with \<open>get = to i\<close> and \<open>reverseGet = from i\<close>, and
  \<open>fromIso o\<close> is the isomorphism with \<open>to = get o\<close> and \<open>from = reverseGet o\<close>: each
  conversion only renames the two fields.
\<close>

theorem toIso_fromIso_relabel:
  "toIso i = \<lparr> get = to i, reverseGet = from i \<rparr> \<and>
   get (toIso i) = to i \<and> reverseGet (toIso i) = from i \<and>
   fromIso o' = \<lparr> to = get o', from = reverseGet o' \<rparr> \<and>
   to (fromIso o') = get o' \<and> from (fromIso o') = reverseGet o'"
  by (simp add: toIso_def fromIso_def getIsoIso_to getIsoIso_from)

text \<open>
  C4. The two conversions round-trip in either order: \<open>fromIso (toIso i)\<close> has the \<open>to\<close>
  and \<open>from\<close> of \<open>i\<close> at every input, and \<open>toIso (fromIso o)\<close> has the \<open>get\<close> and
  \<open>reverseGet\<close> of \<open>o\<close> at every input.
\<close>

theorem toIso_fromIso_roundtrip:
  "to (fromIso (toIso i)) a = to i a \<and>
   from (fromIso (toIso i)) b = from i b \<and>
   get (toIso (fromIso o')) a = get o' a \<and>
   reverseGet (toIso (fromIso o')) b = reverseGet o' b"
  by (simp add: toIso_def fromIso_def getIsoIso_to getIsoIso_from)

section \<open>Reversal\<close>

text \<open>
  C5. \<open>reverse i\<close> is the isomorphism in the other direction: its \<open>to\<close> is the \<open>from\<close> of
  \<open>i\<close> and its \<open>from\<close> is the \<open>to\<close> of \<open>i\<close>, at every input.
\<close>

theorem reverse_correct:
  "to (reverse i) b = from i b \<and> from (reverse i) a = to i a"
  by (simp add: reverse_def)

text \<open>
  C6. Reversing twice gives back the behaviour of the original: \<open>reverse (reverse i)\<close> has
  the \<open>to\<close> of \<open>i\<close> at every \<open>a\<close> and the \<open>from\<close> of \<open>i\<close> at every \<open>b\<close>.
\<close>

theorem reverse_involution:
  "to (reverse (reverse i)) a = to i a \<and> from (reverse (reverse i)) b = from i b"
  by (simp add: reverse_def)

section \<open>The documented example\<close>

text \<open>
  C7. For the isomorphism between booleans and binary digits (\<open>to\<close> sends true to 1 and
  false to 0, \<open>from\<close> sends \<open>n\<close> to \<open>n = 1\<close>) and the semigroup of conjunction, the derived
  semigroup gives \<open>concat 0 1 = 0\<close> and \<open>concat 1 1 = 1\<close>.
\<close>

theorem deriveSemigroup_bool_binary:
  "to isoBoolBinary True = B1 \<and> to isoBoolBinary False = B0 \<and>
   (\<forall>n. from isoBoolBinary n = (n = B1)) \<and>
   (\<forall>p q. concat_sg SemigroupAll p q = (p \<and> q)) \<and>
   concat_sg (deriveSemigroup isoBoolBinary SemigroupAll) B0 B1 = B0 \<and>
   concat_sg (deriveSemigroup isoBoolBinary SemigroupAll) B1 B1 = B1"
proof -
  have "from isoBoolBinary n = (n = B1)" for n
    by (cases n) (simp_all add: isoBoolBinary_def)
  then show ?thesis
    by (simp add: deriveSemigroup_def) (simp add: isoBoolBinary_def SemigroupAll_def)
qed

section \<open>Failure comes from the supplied functions only\<close>




section \<open>Derived laws\<close>

text \<open>
  C9. Reversal and derivation compose to derive a semigroup in the opposite direction:
  for a semigroup \<open>S\<close> over \<open>B\<close>,
  \<^verbatim>\<open>deriveSemigroup(reverse(x))(S).concat(a1, a2) == x.from(S.concat(x.to(a1), x.to(a2)))\<close>.
\<close>

theorem deriveSemigroup_reverse:
  "concat_sg (deriveSemigroup (reverse x) S) a1 a2 = from x (concat_sg S (to x a1) (to x a2))"
  by (simp add: deriveSemigroup_def reverse_def)

text \<open>
  C10. The private helper \<open>getIsoIso\<close> satisfies the bijection law of the type it
  inhabits: \<open>from\<close> after \<open>to\<close> gives an isomorphism with the \<open>to\<close> and \<open>from\<close> of the
  original, and \<open>to\<close> after \<open>from\<close> gives an accessor with the \<open>get\<close> and \<open>reverseGet\<close> of
  the original.
\<close>

theorem getIsoIso_bijection:
  "to (from (getIsoIso ()) (to (getIsoIso ()) x)) a = to x a \<and>
   from (from (getIsoIso ()) (to (getIsoIso ()) x)) b = from x b \<and>
   get (to (getIsoIso ()) (from (getIsoIso ()) y)) a = get y a \<and>
   reverseGet (to (getIsoIso ()) (from (getIsoIso ()) y)) b = reverseGet y b \<and>
   from (getIsoIso ()) (to (getIsoIso ()) x) = x \<and>
   to (getIsoIso ()) (from (getIsoIso ()) y) = y"
  by (simp add: getIsoIso_def)

end
